theory Spec2Isabelle
  imports Main "HOL-Library.Multiset"
begin

section \<open>Data model\<close>

text \<open>
  The program is a Flask application (\<^verbatim>\<open>src/app.py\<close>) whose handlers talk to a MySQL
  store. Each handler is embedded as a function from the request, the environment of that
  request and the committed database to an outcome: the value the handler returns (or the
  exception that leaves it), the committed database afterwards, and what became of the
  connection.

  The body of a JSON request is taken to be an object whose values have the types of the
  columns they are bound to. A column that the handlers bind from \<^verbatim>\<open>data.get(...)\<close>
  holds \<open>None\<close> when the key is missing or JSON null (Python's \<^verbatim>\<open>None\<close>, bound as
  SQL NULL).
\<close>

datatype json =
    JNull
  | JInt int
  | JStr string
  | JTime int
  | JArr "json list"
  | JObj "(string \<times> json) list"

text \<open>
  Modelled from the spec: the schema of the two tables, which the repository does not
  carry under src/. \<^verbatim>\<open>users(id PK auto, username UNIQUE, password)\<close> and
  \<^verbatim>\<open>tasks(id PK auto, title, status, user_id, created_at)\<close>, with status defaulting
  to "pending" and created_at set by the store at creation.
\<close>

record user_row =
  u_id :: int
  u_username :: "string option"
  u_password :: "string option"

record task_row =
  t_id :: int
  t_title :: "string option"
  t_status :: "string option"
  t_user_id :: "int option"
  t_created_at :: int

record database =
  users :: "user_row list"
  tasks :: "task_row list"
  next_user_id :: int
  next_task_id :: int

text \<open>The subclasses of \<^verbatim>\<open>mysql.connector.Error\<close> a statement can raise.\<close>

datatype db_error = IntegrityError | OperationalError | ProgrammingError | DataError

text \<open>
  What the outside world does to one request: whether \<^verbatim>\<open>mysql.connector.connect\<close>
  raises, whether \<^verbatim>\<open>cursor.execute\<close> or \<^verbatim>\<open>conn.commit\<close> raises for a reason that
  is not a property of the stored rows, and the store's clock. Opening and closing a
  cursor and closing the connection are taken not to fail.
\<close>

record env =
  connect_fault :: "db_error option"
  exec_fault :: "db_error option"
  commit_fault :: "db_error option"
  now :: int

datatype route =
    Index
  | Register
  | Login
  | GetTasks nat
  | AddTask
  | UpdateTask nat
  | DeleteTask nat

record request =
  route :: route
  is_json :: bool
  username :: "string option"
  password :: "string option"
  title :: "string option"
  user_id :: "int option"
  status :: "string option"

datatype payload =
    Json json
  | Html string string int

record response =
  payload :: payload
  code :: nat

datatype conn_state = NoConnection | ConnClosed | ConnOpen

text \<open>
  \<open>result\<close> is \<open>Inr\<close> the response the handler returns, or \<open>Inl\<close> the store error that
  leaves the handler uncaught. \<open>conn\<close> is \<open>NoConnection\<close> when none was acquired,
  \<open>ConnClosed\<close> when \<^verbatim>\<open>conn.close()\<close> ran, \<open>ConnOpen\<close> when the handler was left with
  the connection still open.
\<close>

record outcome =
  result :: "db_error + response"
  store :: database
  conn :: conn_state

section \<open>The store\<close>

text \<open>
  SQL equality: a comparison with NULL is never true. Two strings are equal when they are
  the same string (the spec's "match exactly"; the collation of the columns is part of
  the schema, which is not under src/).
\<close>

definition sql_eq :: "'a option \<Rightarrow> 'a option \<Rightarrow> bool" where
  "sql_eq a b = (case a of None \<Rightarrow> False | Some x \<Rightarrow> (case b of None \<Rightarrow> False | Some y \<Rightarrow> x = y))"

definition get_db_connection :: "env \<Rightarrow> unit option" where
  "get_db_connection e = (case connect_fault e of None \<Rightarrow> Some () | Some err \<Rightarrow> None)"

text \<open>\<^verbatim>\<open>SELECT COUNT(*) FROM users\<close>\<close>

definition select_count_users :: "env \<Rightarrow> database \<Rightarrow> db_error + int" where
  "select_count_users e db =
     (case exec_fault e of Some err \<Rightarrow> Inl err | None \<Rightarrow> Inr (int (length (users db))))"

text \<open>\<^verbatim>\<open>INSERT INTO users (username, password) VALUES (%s, %s)\<close>, under the UNIQUE
  constraint on username.\<close>

definition insert_user :: "env \<Rightarrow> database \<Rightarrow> string option \<Rightarrow> string option \<Rightarrow> db_error + database" where
  "insert_user e db name pw =
     (case exec_fault e of
        Some err \<Rightarrow> Inl err
      | None \<Rightarrow>
          if list_ex (\<lambda>r. sql_eq (u_username r) name) (users db) then Inl IntegrityError
          else Inr (db\<lparr>users := users db @ [\<lparr>u_id = next_user_id db, u_username = name, u_password = pw\<rparr>],
                       next_user_id := next_user_id db + 1\<rparr>))"

text \<open>\<^verbatim>\<open>SELECT id, username FROM users WHERE username = %s AND password = %s\<close>
  followed by \<^verbatim>\<open>fetchone()\<close>.\<close>

definition select_user :: "env \<Rightarrow> database \<Rightarrow> string option \<Rightarrow> string option \<Rightarrow> db_error + user_row option" where
  "select_user e db name pw =
     (case exec_fault e of
        Some err \<Rightarrow> Inl err
      | None \<Rightarrow> Inr (find (\<lambda>r. sql_eq (u_username r) name \<and> sql_eq (u_password r) pw) (users db)))"

text \<open>\<^verbatim>\<open>SELECT * FROM tasks WHERE user_id = %s ORDER BY created_at DESC\<close> followed by
  \<^verbatim>\<open>fetchall()\<close>.\<close>

definition select_tasks :: "env \<Rightarrow> database \<Rightarrow> int \<Rightarrow> db_error + task_row list" where
  "select_tasks e db uid =
     (case exec_fault e of
        Some err \<Rightarrow> Inl err
      | None \<Rightarrow> Inr (sort_key (\<lambda>t. - t_created_at t)
                      (filter (\<lambda>t. sql_eq (t_user_id t) (Some uid)) (tasks db))))"

text \<open>\<^verbatim>\<open>INSERT INTO tasks (title, user_id) VALUES (%s, %s)\<close>; the pair holds the new
  database and \<^verbatim>\<open>cursor.lastrowid\<close>.\<close>

definition insert_task :: "env \<Rightarrow> database \<Rightarrow> string option \<Rightarrow> int option \<Rightarrow> db_error + (database \<times> int)" where
  "insert_task e db ttl uid =
     (case exec_fault e of
        Some err \<Rightarrow> Inl err
      | None \<Rightarrow>
          Inr (db\<lparr>tasks := tasks db @ [\<lparr>t_id = next_task_id db, t_title = ttl, t_status = Some ''pending'',
                                          t_user_id = uid, t_created_at = now e\<rparr>],
                  next_task_id := next_task_id db + 1\<rparr>,
               next_task_id db))"

text \<open>\<^verbatim>\<open>UPDATE tasks SET status = %s WHERE id = %s\<close>\<close>

definition update_status :: "env \<Rightarrow> database \<Rightarrow> string option \<Rightarrow> int \<Rightarrow> db_error + database" where
  "update_status e db st tid =
     (case exec_fault e of
        Some err \<Rightarrow> Inl err
      | None \<Rightarrow> Inr (db\<lparr>tasks := map (\<lambda>t. if t_id t = tid then t\<lparr>t_status := st\<rparr> else t) (tasks db)\<rparr>))"

text \<open>\<^verbatim>\<open>DELETE FROM tasks WHERE id = %s\<close>\<close>

definition delete_row :: "env \<Rightarrow> database \<Rightarrow> int \<Rightarrow> db_error + database" where
  "delete_row e db tid =
     (case exec_fault e of
        Some err \<Rightarrow> Inl err
      | None \<Rightarrow> Inr (db\<lparr>tasks := filter (\<lambda>t. t_id t \<noteq> tid) (tasks db)\<rparr>))"

text \<open>\<^verbatim>\<open>conn.commit()\<close>: the pending database becomes the committed one, unless the
  commit raises.\<close>

definition commit :: "env \<Rightarrow> database \<Rightarrow> db_error + database" where
  "commit e pending = (case commit_fault e of Some err \<Rightarrow> Inl err | None \<Rightarrow> Inr pending)"

section \<open>Responses\<close>

definition error_body :: "string \<Rightarrow> payload" where
  "error_body msg = Json (JObj [(''error'', JStr msg)])"

definition message_body :: "string \<Rightarrow> payload" where
  "message_body msg = Json (JObj [(''message'', JStr msg)])"

definition str_json :: "string option \<Rightarrow> json" where
  "str_json s = (case s of None \<Rightarrow> JNull | Some x \<Rightarrow> JStr x)"

definition int_json :: "int option \<Rightarrow> json" where
  "int_json i = (case i of None \<Rightarrow> JNull | Some x \<Rightarrow> JInt x)"

definition user_json :: "user_row \<Rightarrow> json" where
  "user_json r = JObj [(''id'', JInt (u_id r)), (''username'', str_json (u_username r))]"

definition task_json :: "task_row \<Rightarrow> json" where
  "task_json t = JObj [(''id'', JInt (t_id t)), (''title'', str_json (t_title t)),
                       (''status'', str_json (t_status t)), (''user_id'', int_json (t_user_id t)),
                       (''created_at'', JTime (t_created_at t))]"

definition returns :: "payload \<Rightarrow> nat \<Rightarrow> database \<Rightarrow> conn_state \<Rightarrow> outcome" where
  "returns p c db cs = \<lparr>result = Inr \<lparr>payload = p, code = c\<rparr>, store = db, conn = cs\<rparr>"

definition raises :: "db_error \<Rightarrow> database \<Rightarrow> conn_state \<Rightarrow> outcome" where
  "raises err db cs = \<lparr>result = Inl err, store = db, conn = cs\<rparr>"

definition err_text :: "db_error \<Rightarrow> string" where
  "err_text err = (case err of IntegrityError \<Rightarrow> ''IntegrityError'' | OperationalError \<Rightarrow> ''OperationalError''
                   | ProgrammingError \<Rightarrow> ''ProgrammingError'' | DataError \<Rightarrow> ''DataError'')"

section \<open>Handlers\<close>

definition index :: "env \<Rightarrow> database \<Rightarrow> outcome" where
  "index e db =
     (case get_db_connection e of
        None \<Rightarrow> returns (Html ''Disconnected'' ''Could not connect to MySQL. Check XAMPP and .env settings.'' 0)
                  200 db NoConnection
      | Some c \<Rightarrow>
          (case select_count_users e db of
             Inr user_count \<Rightarrow> returns (Html ''Connected'' '''' user_count) 200 db ConnClosed
           | Inl err \<Rightarrow> returns (Html ''Table Error''
                                  (''Connected to DB, but failed to fetch users: '' @ err_text err) 0)
                          200 db ConnClosed))"

definition register :: "env \<Rightarrow> request \<Rightarrow> database \<Rightarrow> outcome" where
  "register e req db =
     (if \<not> is_json req then returns (error_body ''Content-Type must be application/json'') 415 db NoConnection
      else
        (case get_db_connection e of
           None \<Rightarrow> returns (error_body ''Database connection failed.'') 500 db NoConnection
         | Some c \<Rightarrow>
             (case insert_user e db (username req) (password req) of
                Inl err \<Rightarrow> returns (error_body ''Username already exists'') 400 db ConnClosed
              | Inr pending \<Rightarrow>
                  (case commit e pending of
                     Inl err \<Rightarrow> returns (error_body ''Username already exists'') 400 db ConnClosed
                   | Inr db' \<Rightarrow> returns (message_body ''User registered successfully'') 201 db' ConnClosed))))"

definition login :: "env \<Rightarrow> request \<Rightarrow> database \<Rightarrow> outcome" where
  "login e req db =
     (if \<not> is_json req then returns (error_body ''Content-Type must be application/json'') 415 db NoConnection
      else
        (case get_db_connection e of
           None \<Rightarrow> returns (error_body ''Database connection failed'') 500 db NoConnection
         | Some c \<Rightarrow>
             (case select_user e db (username req) (password req) of
                Inl err \<Rightarrow> returns (error_body ''Database query failed'') 500 db ConnClosed
              | Inr (Some user) \<Rightarrow> returns (Json (user_json user)) 200 db ConnClosed
              | Inr None \<Rightarrow> returns (error_body ''Invalid username or password'') 401 db ConnClosed)))"

definition get_tasks :: "env \<Rightarrow> database \<Rightarrow> int \<Rightarrow> outcome" where
  "get_tasks e db uid =
     (case get_db_connection e of
        None \<Rightarrow> returns (error_body ''Database connection failed'') 500 db NoConnection
      | Some c \<Rightarrow>
          (case select_tasks e db uid of
             Inl err \<Rightarrow> raises err db ConnOpen
           | Inr rows \<Rightarrow> returns (Json (JArr (map task_json rows))) 200 db ConnClosed))"

definition add_task :: "env \<Rightarrow> request \<Rightarrow> database \<Rightarrow> outcome" where
  "add_task e req db =
     (if \<not> is_json req then returns (error_body ''Content-Type must be application/json'') 415 db NoConnection
      else
        (case get_db_connection e of
           None \<Rightarrow> returns (error_body ''Database connection failed'') 500 db NoConnection
         | Some c \<Rightarrow>
             (case insert_task e db (title req) (user_id req) of
                Inl err \<Rightarrow> raises err db ConnOpen
              | Inr (pending, new_id) \<Rightarrow>
                  (case commit e pending of
                     Inl err \<Rightarrow> raises err db ConnOpen
                   | Inr db' \<Rightarrow>
                       returns (Json (JObj [(''id'', JInt new_id), (''title'', str_json (title req)),
                                            (''status'', JStr ''pending'')]))
                         201 db' ConnClosed))))"

definition update_task :: "env \<Rightarrow> request \<Rightarrow> database \<Rightarrow> int \<Rightarrow> outcome" where
  "update_task e req db tid =
     (if \<not> is_json req then returns (error_body ''Content-Type must be application/json'') 415 db NoConnection
      else
        (case get_db_connection e of
           None \<Rightarrow> returns (error_body ''Database connection failed'') 500 db NoConnection
         | Some c \<Rightarrow>
             (case update_status e db (status req) tid of
                Inl err \<Rightarrow> raises err db ConnOpen
              | Inr pending \<Rightarrow>
                  (case commit e pending of
                     Inl err \<Rightarrow> raises err db ConnOpen
                   | Inr db' \<Rightarrow> returns (message_body ''Updated'') 200 db' ConnClosed))))"

definition delete_task :: "env \<Rightarrow> database \<Rightarrow> int \<Rightarrow> outcome" where
  "delete_task e db tid =
     (case get_db_connection e of
        None \<Rightarrow> returns (error_body ''Database connection failed'') 500 db NoConnection
      | Some c \<Rightarrow>
          (case delete_row e db tid of
             Inl err \<Rightarrow> raises err db ConnOpen
           | Inr pending \<Rightarrow>
               (case commit e pending of
                  Inl err \<Rightarrow> raises err db ConnOpen
                | Inr db' \<Rightarrow> returns (message_body ''Deleted'') 200 db' ConnClosed)))"

text \<open>The routing table of the \<^verbatim>\<open>@app.route\<close> decorators.\<close>

definition handle :: "env \<Rightarrow> request \<Rightarrow> database \<Rightarrow> outcome" where
  "handle e req db =
     (case route req of
        Index \<Rightarrow> index e db
      | Register \<Rightarrow> register e req db
      | Login \<Rightarrow> login e req db
      | GetTasks uid \<Rightarrow> get_tasks e db (int uid)
      | AddTask \<Rightarrow> add_task e req db
      | UpdateTask tid \<Rightarrow> update_task e req db (int tid)
      | DeleteTask tid \<Rightarrow> delete_task e db (int tid))"

section \<open>Requests in sequence\<close>

text \<open>
  The server answers requests one after another, each on the store the one before left
  behind; every request meets an environment of its own.
\<close>

fun run :: "(env \<times> request) list \<Rightarrow> database \<Rightarrow> database" where
  "run [] db = db"
| "run ((e, req) # rest) db = run rest (store (handle e req db))"

section \<open>Well-formed databases\<close>

text \<open>
  Modelled from the spec: what the schema's keys guarantee of the stored rows. Usernames
  that are not NULL are pairwise different (UNIQUE), the ids of each table are pairwise
  different (PRIMARY KEY) and lie below the table's next auto-assigned id.
\<close>

definition wf_db :: "database \<Rightarrow> bool" where
  "wf_db db =
     (distinct (List.map_filter u_username (users db))
      \<and> distinct (map u_id (users db))
      \<and> list_all (\<lambda>r. u_id r < next_user_id db) (users db)
      \<and> distinct (map t_id (tasks db))
      \<and> list_all (\<lambda>t. t_id t < next_task_id db) (tasks db))"

section \<open>Content type\<close>

text \<open>The routes whose handler begins with the \<^verbatim>\<open>request.is_json\<close> test.\<close>

fun tests_is_json :: "route \<Rightarrow> bool" where
  "tests_is_json Register = True"
| "tests_is_json Login = True"
| "tests_is_json AddTask = True"
| "tests_is_json (UpdateTask tid) = True"
| "tests_is_json r = False"

section \<open>Concrete requests and databases\<close>

definition ok_env :: env where
  "ok_env = \<lparr>connect_fault = None, exec_fault = None, commit_fault = None, now = 100\<rparr>"

definition lost_env :: env where
  "lost_env = \<lparr>connect_fault = None, exec_fault = Some OperationalError, commit_fault = None, now = 100\<rparr>"

definition alice :: user_row where
  "alice = \<lparr>u_id = 1, u_username = Some ''alice'', u_password = Some ''pw1''\<rparr>"

definition milk :: task_row where
  "milk = \<lparr>t_id = 1, t_title = Some ''Buy milk'', t_status = Some ''pending'', t_user_id = Some 1,
            t_created_at = 10\<rparr>"

definition bread :: task_row where
  "bread = \<lparr>t_id = 2, t_title = Some ''Buy bread'', t_status = Some ''done'', t_user_id = Some 1,
             t_created_at = 20\<rparr>"

definition empty_db :: database where
  "empty_db = \<lparr>users = [], tasks = [], next_user_id = 1, next_task_id = 1\<rparr>"

definition alice_db :: database where
  "alice_db = \<lparr>users = [alice], tasks = [milk, bread], next_user_id = 2, next_task_id = 3\<rparr>"

definition plain_request :: "route \<Rightarrow> request" where
  "plain_request r = \<lparr>route = r, is_json = False, username = None, password = None, title = None,
                       user_id = None, status = None\<rparr>"

definition json_request :: "route \<Rightarrow> request" where
  "json_request r = \<lparr>route = r, is_json = True, username = None, password = None, title = None,
                      user_id = None, status = None\<rparr>"

definition bob_request :: "route \<Rightarrow> request" where
  "bob_request r = \<lparr>route = r, is_json = True, username = Some ''bob'', password = Some ''pw2'',
                     title = Some ''Walk dog'', user_id = Some 1, status = Some ''done''\<rparr>"

definition alice_request :: "string \<Rightarrow> request" where
  "alice_request pw = \<lparr>route = Login, is_json = True, username = Some ''alice'', password = Some pw,
                        title = None, user_id = None, status = None\<rparr>"

section \<open>Unfolding\<close>

lemmas store_defs = sql_eq_def get_db_connection_def select_count_users_def insert_user_def
  select_user_def select_tasks_def insert_task_def update_status_def delete_row_def commit_def

lemmas response_defs = error_body_def message_body_def str_json_def int_json_def user_json_def
  task_json_def returns_def raises_def err_text_def

lemmas handler_defs = index_def register_def login_def get_tasks_def add_task_def update_task_def
  delete_task_def handle_def

section \<open>The handlers keep the database well formed\<close>

lemma username_listed:
  "r \<in> set us \<Longrightarrow> u_username r = Some n \<Longrightarrow> n \<in> set (List.map_filter u_username us)"
  by (force simp: List.map_filter_def)

lemma unique_username_row:
  "distinct (List.map_filter u_username us) \<Longrightarrow> a \<in> set us \<Longrightarrow> b \<in> set us
   \<Longrightarrow> u_username a = Some n \<Longrightarrow> u_username b = Some n \<Longrightarrow> a = b"
proof (induction us)
  case Nil
  then show ?case by simp
next
  case (Cons x xs)
  show ?case
  proof (cases "u_username x")
    case None
    with Cons show ?thesis
      by (auto simp: List.map_filter_simps)
  next
    case (Some m)
    with Cons.prems have d: "m \<notin> set (List.map_filter u_username xs)"
      and d': "distinct (List.map_filter u_username xs)"
      by (simp_all add: List.map_filter_simps)
    from Cons.prems Cons.IH [OF d'] d Some show ?thesis
      by (auto dest: username_listed)
  qed
qed

lemma insert_user_wf:
  "wf_db db \<Longrightarrow> insert_user e db name pw = Inr db' \<Longrightarrow> wf_db db'"
  by (cases name)
    (fastforce simp: wf_db_def insert_user_def sql_eq_def List.map_filter_def list_ex_iff list_all_iff
       split: option.splits if_splits)+

lemma insert_task_wf:
  "wf_db db \<Longrightarrow> insert_task e db ttl uid = Inr (db', i) \<Longrightarrow> wf_db db'"
  by (fastforce simp: wf_db_def insert_task_def list_all_iff split: option.splits)

lemma update_status_wf:
  "wf_db db \<Longrightarrow> update_status e db st tid = Inr db' \<Longrightarrow> wf_db db'"
  by (auto simp: wf_db_def update_status_def list_all_iff comp_def if_distrib cong: if_cong split: option.splits)

lemma delete_row_wf:
  "wf_db db \<Longrightarrow> delete_row e db tid = Inr db' \<Longrightarrow> wf_db db'"
  by (auto simp: wf_db_def delete_row_def list_all_iff distinct_map_filter split: option.splits)

lemma handle_wf: "wf_db db \<Longrightarrow> wf_db (store (handle e req db))"
  apply (cases "route req")
  apply (auto simp: handler_defs returns_def raises_def commit_def split: option.splits sum.splits dest: insert_user_wf insert_task_wf update_status_wf delete_row_wf)
  done


lemma empty_db_wf: "wf_db empty_db"
  by (simp add: wf_db_def empty_db_def List.map_filter_simps)

lemma alice_db_wf: "wf_db alice_db"
  by (simp add: wf_db_def alice_db_def alice_def milk_def bread_def List.map_filter_simps)

section \<open>Register and login\<close>

lemma find_snoc_fresh:
  "\<forall>x\<in>set xs. \<not> P x \<Longrightarrow> P y \<Longrightarrow> find P (xs @ [y]) = Some y"
  by (induction xs) auto

text \<open>
  C1: for a JSON request with a username and a password, the username not yet registered
  and the store answering, \<^verbatim>\<open>register\<close> returns 201 and stores one new row, and \<^verbatim>\<open>login\<close>
  with the same username and password on the resulting store returns 200 with the id of
  that row.
\<close>

theorem register_then_login:
  assumes "is_json req" and "username req = Some name" and "password req = Some pw"
    and "is_json req'" and "username req' = Some name" and "password req' = Some pw"
    and "connect_fault e = None" and "exec_fault e = None" and "commit_fault e = None"
    and "connect_fault e' = None" and "exec_fault e' = None"
    and fresh: "\<forall>r\<in>set (users db). u_username r \<noteq> Some name"
  shows "result (register e req db)
           = Inr \<lparr>payload = message_body ''User registered successfully'', code = 201\<rparr>
         \<and> users (store (register e req db))
             = users db @ [\<lparr>u_id = next_user_id db, u_username = Some name, u_password = Some pw\<rparr>]
         \<and> result (login e' req' (store (register e req db)))
             = Inr \<lparr>payload = Json (JObj [(''id'', JInt (next_user_id db)), (''username'', JStr name)]),
                    code = 200\<rparr>"
proof -
  let ?row = "\<lparr>u_id = next_user_id db, u_username = Some name, u_password = Some pw\<rparr>"
  let ?db' = "db\<lparr>users := users db @ [?row], next_user_id := next_user_id db + 1\<rparr>"
  from fresh have nodup: "\<not> list_ex (\<lambda>r. sql_eq (u_username r) (Some name)) (users db)"
    by (auto simp: list_ex_iff sql_eq_def split: option.splits)
  with assms have ins: "insert_user e db (username req) (password req) = Inr ?db'"
    by (simp add: insert_user_def)
  with assms have reg: "register e req db
      = returns (message_body ''User registered successfully'') 201 ?db' ConnClosed"
    by (simp add: register_def get_db_connection_def commit_def)
  from fresh have "\<forall>r\<in>set (users db). \<not> (sql_eq (u_username r) (Some name) \<and> sql_eq (u_password r) (Some pw))"
    by (auto simp: sql_eq_def split: option.splits)
  then have "find (\<lambda>r. sql_eq (u_username r) (Some name) \<and> sql_eq (u_password r) (Some pw)) (users db @ [?row])
      = Some ?row"
    by (rule find_snoc_fresh) (simp add: sql_eq_def)
  with assms have "select_user e' ?db' (username req') (password req') = Inr (Some ?row)"
    by (simp add: select_user_def)
  with assms have "login e' req' ?db' = returns (Json (user_json ?row)) 200 ?db' ConnClosed"
    by (simp add: login_def get_db_connection_def)
  with reg show ?thesis
    by (simp add: returns_def user_json_def str_json_def)
qed

theorem register_then_login_witness:
  "is_json (bob_request Register) \<and> username (bob_request Register) = Some ''bob''
   \<and> password (bob_request Register) = Some ''pw2''
   \<and> is_json (bob_request Login) \<and> username (bob_request Login) = Some ''bob''
   \<and> password (bob_request Login) = Some ''pw2''
   \<and> connect_fault ok_env = None \<and> exec_fault ok_env = None \<and> commit_fault ok_env = None
   \<and> map u_username (users alice_db) = [Some ''alice'']
   \<and> result (register ok_env (bob_request Register) alice_db)
       = Inr \<lparr>payload = message_body ''User registered successfully'', code = 201\<rparr>
   \<and> users (store (register ok_env (bob_request Register) alice_db))
       = [alice, \<lparr>u_id = 2, u_username = Some ''bob'', u_password = Some ''pw2''\<rparr>]
   \<and> result (login ok_env (bob_request Login) (store (register ok_env (bob_request Register) alice_db)))
       = Inr \<lparr>payload = Json (JObj [(''id'', JInt 2), (''username'', JStr ''bob'')]), code = 200\<rparr>"
proof -
  have r: "is_json (bob_request Register)" "username (bob_request Register) = Some ''bob''"
    "password (bob_request Register) = Some ''pw2''"
    by (simp_all add: bob_request_def)
  have l: "is_json (bob_request Login)" "username (bob_request Login) = Some ''bob''"
    "password (bob_request Login) = Some ''pw2''"
    by (simp_all add: bob_request_def)
  have e: "connect_fault ok_env = None" "exec_fault ok_env = None" "commit_fault ok_env = None"
    by (simp_all add: ok_env_def)
  have f: "\<forall>r\<in>set (users alice_db). u_username r \<noteq> Some ''bob''"
    by (simp add: alice_db_def alice_def)
  have u: "users alice_db = [alice]" "next_user_id alice_db = 2"
    by (simp_all add: alice_db_def)
  from register_then_login [OF r l e e(1,2) f] r l e u show ?thesis
    by (simp add: alice_def)
qed

text \<open>
  C6: on a well-formed database, for a registered username, \<^verbatim>\<open>login\<close> with a password
  other than the stored one returns 401 "Invalid username or password" (so not 200), and
  with the stored password returns 200 with the id and the username of that user's row.
\<close>

theorem login_checks_password:
  assumes "is_json req" and "connect_fault e = None" and "exec_fault e = None"
    and wf: "wf_db db" and u: "u \<in> set (users db)" and un: "u_username u = Some name"
    and "username req = Some name" and "password req = Some pw"
  shows "(u_password u \<noteq> Some pw \<longrightarrow>
            result (login e req db)
              = Inr \<lparr>payload = error_body ''Invalid username or password'', code = 401\<rparr>)
         \<and> (u_password u = Some pw \<longrightarrow>
            result (login e req db)
              = Inr \<lparr>payload = Json (JObj [(''id'', JInt (u_id u)), (''username'', JStr name)]),
                     code = 200\<rparr>)"
proof -
  let ?P = "\<lambda>r. sql_eq (u_username r) (Some name) \<and> sql_eq (u_password r) (Some pw)"
  from wf have d: "distinct (List.map_filter u_username (users db))"
    by (simp add: wf_db_def)
  have only: "r = u" if "r \<in> set (users db)" and "?P r" for r
  proof -
    from that have "u_username r = Some name"
      by (simp add: sql_eq_def split: option.splits)
    with d that(1) u un show ?thesis
      by (rule_tac unique_username_row)
  qed
  have sel: "select_user e db (username req) (password req) = Inr (find ?P (users db))"
    using assms by (simp add: select_user_def)
  have wrong: "find ?P (users db) = None" if "u_password u \<noteq> Some pw"
  proof -
    from that have "\<not> ?P u"
      by (auto simp: sql_eq_def split: option.splits)
    with only show ?thesis
      by (auto simp: find_None_iff)
  qed
  have right: "find ?P (users db) = Some u" if "u_password u = Some pw"
  proof -
    from that un have "?P u"
      by (simp add: sql_eq_def)
    with u have "find ?P (users db) \<noteq> None"
      by (auto simp: find_None_iff)
    then obtain r where r: "find ?P (users db) = Some r"
      by auto
    then have "r \<in> set (users db)" and "?P r"
      by (auto simp: find_Some_iff)
    with only r show ?thesis
      by simp
  qed
  from assms sel wrong right un show ?thesis
    by (auto simp: login_def get_db_connection_def returns_def user_json_def str_json_def)
qed

theorem login_checks_password_witness:
  "is_json (alice_request ''pw1'') \<and> is_json (alice_request ''guess'')
   \<and> connect_fault ok_env = None \<and> exec_fault ok_env = None
   \<and> wf_db alice_db \<and> alice \<in> set (users alice_db) \<and> u_username alice = Some ''alice''
   \<and> u_password alice = Some ''pw1''
   \<and> username (alice_request ''pw1'') = Some ''alice'' \<and> password (alice_request ''pw1'') = Some ''pw1''
   \<and> username (alice_request ''guess'') = Some ''alice''
   \<and> password (alice_request ''guess'') = Some ''guess''
   \<and> result (login ok_env (alice_request ''guess'') alice_db)
       = Inr \<lparr>payload = error_body ''Invalid username or password'', code = 401\<rparr>
   \<and> result (login ok_env (alice_request ''pw1'') alice_db)
       = Inr \<lparr>payload = Json (JObj [(''id'', JInt 1), (''username'', JStr ''alice'')]), code = 200\<rparr>"
proof -
  have j: "is_json (alice_request pw)" "username (alice_request pw) = Some ''alice''"
    "password (alice_request pw) = Some pw" for pw
    by (simp_all add: alice_request_def)
  have e: "connect_fault ok_env = None" "exec_fault ok_env = None"
    by (simp_all add: ok_env_def)
  have a: "alice \<in> set (users alice_db)" "u_username alice = Some ''alice''"
    "u_password alice = Some ''pw1''" "u_id alice = 1"
    by (simp_all add: alice_db_def alice_def)
  from login_checks_password [OF j(1) e alice_db_wf a(1,2) j(2,3), of "''guess''"]
    login_checks_password [OF j(1) e alice_db_wf a(1,2) j(2,3), of "''pw1''"]
    j e a alice_db_wf
  show ?thesis
    by simp
qed

section \<open>Task listing\<close>

text \<open>
  C7: with the store answering, \<^verbatim>\<open>get_tasks\<close> returns 200 with a JSON array of exactly the
  task rows whose user_id is the given integer, ordered by created_at descending; when no
  task has that user_id (a user without tasks, or no such user) the array is empty. The
  store is left as it was.
\<close>

theorem get_tasks_lists_user_rows:
  assumes "connect_fault e = None" and "exec_fault e = None"
  shows "(\<exists>rows. result (get_tasks e db uid)
                    = Inr \<lparr>payload = Json (JArr (map task_json rows)), code = 200\<rparr>
                 \<and> mset rows = filter_mset (\<lambda>t. t_user_id t = Some uid) (mset (tasks db))
                 \<and> sorted_wrt (\<lambda>a b. t_created_at b \<le> t_created_at a) rows)
         \<and> ((\<forall>t\<in>set (tasks db). t_user_id t \<noteq> Some uid) \<longrightarrow>
              result (get_tasks e db uid) = Inr \<lparr>payload = Json (JArr []), code = 200\<rparr>)
         \<and> store (get_tasks e db uid) = db"
proof -
  let ?sel = "filter (\<lambda>t. sql_eq (t_user_id t) (Some uid)) (tasks db)"
  let ?rows = "sort_key (\<lambda>t. - t_created_at t) ?sel"
  have eq: "sql_eq c (Some uid) = (c = Some uid)" for c
    by (auto simp: sql_eq_def split: option.splits)
  from assms have g: "get_tasks e db uid = returns (Json (JArr (map task_json ?rows))) 200 db ConnClosed"
    by (simp add: get_tasks_def get_db_connection_def select_tasks_def)
  have m: "mset ?rows = filter_mset (\<lambda>t. t_user_id t = Some uid) (mset (tasks db))"
    by (simp add: eq)
  have "sorted (map (\<lambda>t. - t_created_at t) ?rows)"
    by (rule sorted_sort_key)
  then have s: "sorted_wrt (\<lambda>a b. t_created_at b \<le> t_created_at a) ?rows"
    by (simp add: sorted_map)
  have n: "?rows = []" if "\<forall>t\<in>set (tasks db). t_user_id t \<noteq> Some uid"
    using that by (simp add: eq filter_empty_conv)
  from g m s n show ?thesis
    by (auto simp: returns_def)
qed

theorem get_tasks_lists_user_rows_witness:
  "connect_fault ok_env = None \<and> exec_fault ok_env = None
   \<and> (\<exists>rows. result (get_tasks ok_env alice_db 1)
                = Inr \<lparr>payload = Json (JArr (map task_json rows)), code = 200\<rparr>
             \<and> mset rows = filter_mset (\<lambda>t. t_user_id t = Some 1) (mset (tasks alice_db))
             \<and> sorted_wrt (\<lambda>a b. t_created_at b \<le> t_created_at a) rows)
   \<and> result (get_tasks ok_env alice_db 1)
       = Inr \<lparr>payload = Json (JArr [task_json bread, task_json milk]), code = 200\<rparr>
   \<and> map t_user_id (tasks alice_db) = [Some 1, Some 1]
   \<and> result (get_tasks ok_env alice_db 7) = Inr \<lparr>payload = Json (JArr []), code = 200\<rparr>
   \<and> store (get_tasks ok_env alice_db 7) = alice_db"
proof -
  have e: "connect_fault ok_env = None" "exec_fault ok_env = None"
    by (simp_all add: ok_env_def)
  have n: "\<forall>t\<in>set (tasks alice_db). t_user_id t \<noteq> Some 7"
    by (simp add: alice_db_def milk_def bread_def)
  have m: "map t_user_id (tasks alice_db) = [Some 1, Some 1]"
    by (simp add: alice_db_def milk_def bread_def)
  have v: "result (get_tasks ok_env alice_db 1)
             = Inr \<lparr>payload = Json (JArr [task_json bread, task_json milk]), code = 200\<rparr>"
    by (simp add: get_tasks_def get_db_connection_def select_tasks_def sql_eq_def returns_def
          ok_env_def alice_db_def milk_def bread_def)
  from get_tasks_lists_user_rows [OF e, of alice_db 1] get_tasks_lists_user_rows [OF e, of alice_db 7]
    e n m v
  show ?thesis
    by simp
qed

section \<open>Task creation, update and deletion\<close>

text \<open>
  C8: for a JSON request, with the store answering, \<^verbatim>\<open>add_task\<close> appends one task row with
  the request's title and user_id and status "pending", and returns 201 with a body of
  exactly the keys id, title and status, where id is the id of the new row (an id no
  earlier row of a well-formed database has), title is the request's and status is
  "pending"; the body has no created_at.
\<close>

theorem add_task_inserts_pending_row:
  assumes "is_json req" and "connect_fault e = None" and "exec_fault e = None"
    and "commit_fault e = None"
  shows "\<exists>row fields.
           tasks (store (add_task e req db)) = tasks db @ [row]
           \<and> users (store (add_task e req db)) = users db
           \<and> t_status row = Some ''pending'' \<and> t_title row = title req \<and> t_user_id row = user_id req
           \<and> (wf_db db \<longrightarrow> (\<forall>t\<in>set (tasks db). t_id t \<noteq> t_id row))
           \<and> result (add_task e req db) = Inr \<lparr>payload = Json (JObj fields), code = 201\<rparr>
           \<and> map fst fields = [''id'', ''title'', ''status'']
           \<and> map_of fields ''id'' = Some (JInt (t_id row))
           \<and> map_of fields ''title'' = Some (str_json (title req))
           \<and> map_of fields ''status'' = Some (JStr ''pending'')
           \<and> map_of fields ''created_at'' = None"
  using assms
  by (fastforce simp: add_task_def get_db_connection_def insert_task_def commit_def returns_def
        wf_db_def list_all_iff)


theorem add_task_inserts_pending_row_witness:
  "is_json (bob_request AddTask) \<and> connect_fault ok_env = None \<and> exec_fault ok_env = None
   \<and> commit_fault ok_env = None \<and> wf_db alice_db
   \<and> (\<exists>row fields.
         tasks (store (add_task ok_env (bob_request AddTask) alice_db)) = tasks alice_db @ [row]
         \<and> t_status row = Some ''pending''
         \<and> result (add_task ok_env (bob_request AddTask) alice_db)
             = Inr \<lparr>payload = Json (JObj fields), code = 201\<rparr>
         \<and> map_of fields ''id'' = Some (JInt (t_id row))
         \<and> map_of fields ''created_at'' = None)
   \<and> tasks (store (add_task ok_env (bob_request AddTask) alice_db))
       = [milk, bread, \<lparr>t_id = 3, t_title = Some ''Walk dog'', t_status = Some ''pending'',
                        t_user_id = Some 1, t_created_at = 100\<rparr>]
   \<and> result (add_task ok_env (bob_request AddTask) alice_db)
       = Inr \<lparr>payload = Json (JObj [(''id'', JInt 3), (''title'', JStr ''Walk dog''),
                                      (''status'', JStr ''pending'')]), code = 201\<rparr>"
proof -
  have j: "is_json (bob_request AddTask)"
    by (simp add: bob_request_def)
  have e: "connect_fault ok_env = None" "exec_fault ok_env = None" "commit_fault ok_env = None"
    by (simp_all add: ok_env_def)
  have v: "tasks (store (add_task ok_env (bob_request AddTask) alice_db))
             = [milk, bread, \<lparr>t_id = 3, t_title = Some ''Walk dog'', t_status = Some ''pending'',
                              t_user_id = Some 1, t_created_at = 100\<rparr>]"
    "result (add_task ok_env (bob_request AddTask) alice_db)
       = Inr \<lparr>payload = Json (JObj [(''id'', JInt 3), (''title'', JStr ''Walk dog''),
                                      (''status'', JStr ''pending'')]), code = 201\<rparr>"
    by (simp_all add: add_task_def get_db_connection_def insert_task_def commit_def returns_def
          str_json_def ok_env_def alice_db_def bob_request_def)
  from add_task_inserts_pending_row [OF j e, of alice_db]
  have "\<exists>row fields.
         tasks (store (add_task ok_env (bob_request AddTask) alice_db)) = tasks alice_db @ [row]
         \<and> t_status row = Some ''pending''
         \<and> result (add_task ok_env (bob_request AddTask) alice_db)
             = Inr \<lparr>payload = Json (JObj fields), code = 201\<rparr>
         \<and> map_of fields ''id'' = Some (JInt (t_id row))
         \<and> map_of fields ''created_at'' = None"
    by blast
  with j e v alice_db_wf show ?thesis
    by blast
qed

text \<open>
  C9: for a JSON request, with the store answering, \<^verbatim>\<open>update_task\<close> returns 200 "Updated";
  every task row with the given id gets the request's status and keeps its other fields,
  every other task row, the users and the id counters are unchanged; when no row has the
  id, the store is unchanged.
\<close>

theorem update_task_sets_status_only:
  assumes "is_json req" and "connect_fault e = None" and "exec_fault e = None"
    and "commit_fault e = None"
  shows "result (update_task e req db tid) = Inr \<lparr>payload = message_body ''Updated'', code = 200\<rparr>
         \<and> users (store (update_task e req db tid)) = users db
         \<and> next_user_id (store (update_task e req db tid)) = next_user_id db
         \<and> next_task_id (store (update_task e req db tid)) = next_task_id db
         \<and> length (tasks (store (update_task e req db tid))) = length (tasks db)
         \<and> (\<forall>i<length (tasks db).
               tasks (store (update_task e req db tid)) ! i
                 = (if t_id (tasks db ! i) = tid then (tasks db ! i)\<lparr>t_status := status req\<rparr>
                    else tasks db ! i))
         \<and> ((\<forall>t\<in>set (tasks db). t_id t \<noteq> tid) \<longrightarrow> store (update_task e req db tid) = db)"
proof -
  let ?f = "\<lambda>t. if t_id t = tid then t\<lparr>t_status := status req\<rparr> else t"
  from assms have u: "update_task e req db tid
      = returns (message_body ''Updated'') 200 (db\<lparr>tasks := map ?f (tasks db)\<rparr>) ConnClosed"
    by (simp add: update_task_def get_db_connection_def update_status_def commit_def)
  have "map ?f (tasks db) = tasks db" if "\<forall>t\<in>set (tasks db). t_id t \<noteq> tid"
    using that by (simp add: map_idI)
  with u show ?thesis
    by (simp add: returns_def)
qed


theorem update_task_sets_status_only_witness:
  "is_json (bob_request (UpdateTask 1)) \<and> connect_fault ok_env = None \<and> exec_fault ok_env = None
   \<and> commit_fault ok_env = None
   \<and> result (update_task ok_env (bob_request (UpdateTask 1)) alice_db 1)
       = Inr \<lparr>payload = message_body ''Updated'', code = 200\<rparr>
   \<and> tasks (store (update_task ok_env (bob_request (UpdateTask 1)) alice_db 1))
       = [milk\<lparr>t_status := Some ''done''\<rparr>, bread]
   \<and> users (store (update_task ok_env (bob_request (UpdateTask 1)) alice_db 1)) = [alice]
   \<and> map t_id (tasks alice_db) = [1, 2]
   \<and> result (update_task ok_env (bob_request (UpdateTask 9)) alice_db 9)
       = Inr \<lparr>payload = message_body ''Updated'', code = 200\<rparr>
   \<and> store (update_task ok_env (bob_request (UpdateTask 9)) alice_db 9) = alice_db"
proof -
  have j: "is_json (bob_request r)" "status (bob_request r) = Some ''done''" for r
    by (simp_all add: bob_request_def)
  have e: "connect_fault ok_env = None" "exec_fault ok_env = None" "commit_fault ok_env = None"
    by (simp_all add: ok_env_def)
  have t: "tasks alice_db = [milk, bread]" "users alice_db = [alice]" "t_id milk = 1" "t_id bread = 2"
    by (simp_all add: alice_db_def milk_def bread_def)
  let ?db1 = "store (update_task ok_env (bob_request (UpdateTask 1)) alice_db 1)"
  note u1 = update_task_sets_status_only [OF j(1) e, of "UpdateTask 1" alice_db 1]
  note u9 = update_task_sets_status_only [OF j(1) e, of "UpdateTask 9" alice_db 9]
  from u1 have len: "length (tasks ?db1) = 2"
    by (simp add: t)
  from u1 have "tasks ?db1 ! 0 = milk\<lparr>t_status := Some ''done''\<rparr>" and "tasks ?db1 ! 1 = bread"
    by (simp_all add: t j)
  with len have rows: "tasks ?db1 = [milk\<lparr>t_status := Some ''done''\<rparr>, bread]"
    by (cases "tasks ?db1" rule: list.exhaust; cases "tl (tasks ?db1)" rule: list.exhaust) auto
  from u9 have "store (update_task ok_env (bob_request (UpdateTask 9)) alice_db 9) = alice_db"
    by (simp add: t)
  with u1 u9 rows j e t show ?thesis
    by simp
qed

lemma handle_keeps_id_absent:
  assumes "tid < next_task_id db" and "\<forall>t\<in>set (tasks db). t_id t \<noteq> tid"
  shows "tid < next_task_id (store (handle e req db))
         \<and> (\<forall>t\<in>set (tasks (store (handle e req db))). t_id t \<noteq> tid)"
  using assms
  by (cases "route req")
    (auto simp: handler_defs store_defs returns_def raises_def split: option.splits sum.splits if_splits)

lemma run_keeps_id_absent:
  "tid < next_task_id db \<Longrightarrow> \<forall>t\<in>set (tasks db). t_id t \<noteq> tid
   \<Longrightarrow> \<forall>t\<in>set (tasks (run later db)). t_id t \<noteq> tid"
proof (induction later arbitrary: db)
  case Nil
  then show ?case by simp
next
  case (Cons step later)
  obtain e req where step: "step = (e, req)"
    by (cases step)
  from handle_keeps_id_absent [OF Cons.prems, of e req] Cons.IH [of "store (handle e req db)"]
  show ?case
    by (simp add: step)
qed

lemma get_tasks_rows_subset:
  assumes "connect_fault e = None" and "exec_fault e = None"
  shows "\<exists>rows. result (get_tasks e db uid)
                   = Inr \<lparr>payload = Json (JArr (map task_json rows)), code = 200\<rparr>
                \<and> set rows \<subseteq> set (tasks db)"
  using assms by (auto simp: get_tasks_def get_db_connection_def select_tasks_def returns_def)

text \<open>
  C10: with the store answering, \<^verbatim>\<open>delete_task\<close> returns 200 "Deleted", and so does a
  second deletion of the same id, which leaves the store as the first one left it. No row
  with the deleted id is in the listing of any user on the resulting store; and when the
  id lies below the next auto-assigned id (as the id of every stored task does), none is
  in the listing of any user after any further requests either.
\<close>

theorem delete_task_removes_and_repeats:
  assumes "connect_fault e1 = None" and "exec_fault e1 = None" and "commit_fault e1 = None"
    and "connect_fault e2 = None" and "exec_fault e2 = None" and "commit_fault e2 = None"
    and "connect_fault e3 = None" and "exec_fault e3 = None"
  shows "result (delete_task e1 db tid) = Inr \<lparr>payload = message_body ''Deleted'', code = 200\<rparr>
         \<and> result (delete_task e2 (store (delete_task e1 db tid)) tid)
             = Inr \<lparr>payload = message_body ''Deleted'', code = 200\<rparr>
         \<and> store (delete_task e2 (store (delete_task e1 db tid)) tid) = store (delete_task e1 db tid)
         \<and> (\<forall>uid. \<exists>rows. result (get_tasks e3 (store (delete_task e1 db tid)) uid)
                            = Inr \<lparr>payload = Json (JArr (map task_json rows)), code = 200\<rparr>
                         \<and> (\<forall>t\<in>set rows. t_id t \<noteq> tid))
         \<and> (tid < next_task_id db \<longrightarrow>
              (\<forall>later uid. \<exists>rows. result (get_tasks e3 (run later (store (delete_task e1 db tid))) uid)
                                    = Inr \<lparr>payload = Json (JArr (map task_json rows)), code = 200\<rparr>
                                 \<and> (\<forall>t\<in>set rows. t_id t \<noteq> tid)))"
proof -
  let ?db1 = "db\<lparr>tasks := filter (\<lambda>t. t_id t \<noteq> tid) (tasks db)\<rparr>"
  from assms have d1: "delete_task e1 db tid = returns (message_body ''Deleted'') 200 ?db1 ConnClosed"
    by (simp add: delete_task_def get_db_connection_def delete_row_def commit_def)
  from assms have d2: "delete_task e2 ?db1 tid = returns (message_body ''Deleted'') 200 ?db1 ConnClosed"
    by (simp add: delete_task_def get_db_connection_def delete_row_def commit_def)
  have gone: "\<forall>t\<in>set (tasks ?db1). t_id t \<noteq> tid"
    by simp
  have listing: "\<exists>rows. result (get_tasks e3 db' uid)
                          = Inr \<lparr>payload = Json (JArr (map task_json rows)), code = 200\<rparr>
                       \<and> (\<forall>t\<in>set rows. t_id t \<noteq> tid)"
    if "\<forall>t\<in>set (tasks db'). t_id t \<noteq> tid" for db' uid
    using get_tasks_rows_subset [OF assms(7,8), of db' uid] that by blast
  have now: "\<forall>uid. \<exists>rows. result (get_tasks e3 ?db1 uid)
                           = Inr \<lparr>payload = Json (JArr (map task_json rows)), code = 200\<rparr>
                        \<and> (\<forall>t\<in>set rows. t_id t \<noteq> tid)"
    using listing [OF gone] by blast
  have later: "\<exists>rows. result (get_tasks e3 (run later ?db1) uid)
                        = Inr \<lparr>payload = Json (JArr (map task_json rows)), code = 200\<rparr>
                     \<and> (\<forall>t\<in>set rows. t_id t \<noteq> tid)"
    if "tid < next_task_id db" for later uid
  proof -
    from that have "tid < next_task_id ?db1"
      by simp
    then have "\<forall>t\<in>set (tasks (run later ?db1)). t_id t \<noteq> tid"
      using gone by (rule run_keeps_id_absent)
    then show ?thesis
      by (rule listing)
  qed
  from d1 d2 now later show ?thesis
    by (simp add: returns_def)
qed


theorem delete_task_removes_and_repeats_witness:
  "connect_fault ok_env = None \<and> exec_fault ok_env = None \<and> commit_fault ok_env = None
   \<and> (1::int) < next_task_id alice_db
   \<and> result (delete_task ok_env alice_db 1) = Inr \<lparr>payload = message_body ''Deleted'', code = 200\<rparr>
   \<and> tasks (store (delete_task ok_env alice_db 1)) = [bread]
   \<and> result (delete_task ok_env (store (delete_task ok_env alice_db 1)) 1)
       = Inr \<lparr>payload = message_body ''Deleted'', code = 200\<rparr>
   \<and> store (delete_task ok_env (store (delete_task ok_env alice_db 1)) 1)
       = store (delete_task ok_env alice_db 1)
   \<and> (\<exists>rows. result (get_tasks ok_env (store (delete_task ok_env alice_db 1)) 1)
                = Inr \<lparr>payload = Json (JArr (map task_json rows)), code = 200\<rparr>
             \<and> 1 \<notin> set (map t_id rows))
   \<and> (\<exists>rows. result (get_tasks ok_env
                        (run [(ok_env, bob_request AddTask)] (store (delete_task ok_env alice_db 1))) 1)
                = Inr \<lparr>payload = Json (JArr (map task_json rows)), code = 200\<rparr>
             \<and> 1 \<notin> set (map t_id rows))"
proof -
  have e: "connect_fault ok_env = None" "exec_fault ok_env = None" "commit_fault ok_env = None"
    by (simp_all add: ok_env_def)
  have n: "(1::int) < next_task_id alice_db"
    by (simp add: alice_db_def)
  have v: "tasks (store (delete_task ok_env alice_db 1)) = [bread]"
    by (simp add: delete_task_def get_db_connection_def delete_row_def commit_def returns_def
          ok_env_def alice_db_def milk_def bread_def)
  note d = delete_task_removes_and_repeats [OF e e e(1,2), of alice_db 1]
  from d have a: "\<exists>rows. result (get_tasks ok_env (store (delete_task ok_env alice_db 1)) 1)
                           = Inr \<lparr>payload = Json (JArr (map task_json rows)), code = 200\<rparr>
                        \<and> 1 \<notin> set (map t_id rows)"
    by fastforce
  from d n have b: "\<exists>rows. result (get_tasks ok_env
                        (run [(ok_env, bob_request AddTask)] (store (delete_task ok_env alice_db 1))) 1)
                = Inr \<lparr>payload = Json (JArr (map task_json rows)), code = 200\<rparr>
             \<and> 1 \<notin> set (map t_id rows)"
    by fastforce
  from d e n v a b show ?thesis
    by blast
qed

section \<open>Content type of write requests\<close>

text \<open>
  C2, as stated, fails: \<^verbatim>\<open>delete_task\<close> never looks at the content type. A DELETE of task 1
  sent without a JSON body is answered 200 "Deleted" and the row is gone.
\<close>

theorem delete_task_ignores_content_type:
  "result (handle ok_env (plain_request (DeleteTask 1)) alice_db)
     = Inr \<lparr>payload = message_body ''Deleted'', code = 200\<rparr>
   \<and> tasks (store (handle ok_env (plain_request (DeleteTask 1)) alice_db)) = [bread]
   \<and> store (handle ok_env (plain_request (DeleteTask 1)) alice_db) \<noteq> alice_db"
  by (simp add: handle_def delete_task_def get_db_connection_def delete_row_def commit_def
        returns_def message_body_def ok_env_def plain_request_def alice_db_def milk_def bread_def)

text \<open>
  C2, amended: a request without a JSON body to POST /register, POST /login, POST /tasks or
  PUT /tasks/<task_id> is answered 415, no connection is acquired and the store is unchanged.
  DELETE /tasks/<task_id> makes no such test.
\<close>

theorem non_json_write_is_415:
  assumes "\<not> is_json req" and "tests_is_json (route req)"
  shows "result (handle e req db)
           = Inr \<lparr>payload = error_body ''Content-Type must be application/json'', code = 415\<rparr>
         \<and> store (handle e req db) = db
         \<and> conn (handle e req db) = NoConnection"
  using assms by (cases "route req") (simp_all add: handler_defs returns_def)

theorem non_json_write_is_415_witness:
  "\<not> is_json (plain_request (UpdateTask 1)) \<and> tests_is_json (route (plain_request (UpdateTask 1)))
   \<and> result (handle ok_env (plain_request (UpdateTask 1)) alice_db)
        = Inr \<lparr>payload = error_body ''Content-Type must be application/json'', code = 415\<rparr>
   \<and> store (handle ok_env (plain_request (UpdateTask 1)) alice_db) = alice_db
   \<and> conn (handle ok_env (plain_request (UpdateTask 1)) alice_db) = NoConnection"
proof -
  have a: "\<not> is_json (plain_request (UpdateTask 1))"
    by (simp add: plain_request_def)
  have b: "tests_is_json (route (plain_request (UpdateTask 1)))"
    by (simp add: plain_request_def)
  show ?thesis
    using a b non_json_write_is_415 [OF a b, of ok_env alice_db] by simp
qed

section \<open>Store faults\<close>

text \<open>
  C3: a fault of \<^verbatim>\<open>cursor.execute\<close> is caught in \<^verbatim>\<open>index\<close>, \<^verbatim>\<open>register\<close> and
  \<^verbatim>\<open>login\<close>, which wrap the statement in try/except. The four task handlers have no
  try/except: at GET /tasks/1 with the connection up and the statement failing, the error
  leaves \<^verbatim>\<open>get_tasks\<close> uncaught, and so it does in the other three.
\<close>

theorem task_handlers_let_fault_escape:
  "result (handle lost_env (json_request (GetTasks 1)) alice_db) = Inl OperationalError
   \<and> result (handle lost_env (json_request AddTask) alice_db) = Inl OperationalError
   \<and> result (handle lost_env (json_request (UpdateTask 1)) alice_db) = Inl OperationalError
   \<and> result (handle lost_env (json_request (DeleteTask 1)) alice_db) = Inl OperationalError
   \<and> result (handle lost_env (json_request Login) alice_db)
       = Inr \<lparr>payload = error_body ''Database query failed'', code = 500\<rparr>"
  by (simp add: handler_defs store_defs response_defs lost_env_def json_request_def alice_db_def
        alice_def)

text \<open>
  C4: \<^verbatim>\<open>register\<close> and \<^verbatim>\<open>login\<close> close the connection in a finally block. In the task
  handlers \<^verbatim>\<open>conn.close()\<close> is an ordinary statement after the query: at POST /tasks with
  the statement failing, \<^verbatim>\<open>add_task\<close> is left with the connection open.
\<close>

theorem task_handlers_leak_connection:
  "conn (handle lost_env (json_request AddTask) alice_db) = ConnOpen
   \<and> conn (handle lost_env (json_request (GetTasks 1)) alice_db) = ConnOpen
   \<and> conn (handle lost_env (json_request (UpdateTask 1)) alice_db) = ConnOpen
   \<and> conn (handle lost_env (json_request (DeleteTask 1)) alice_db) = ConnOpen
   \<and> conn (handle lost_env (json_request Register) alice_db) = ConnClosed
   \<and> conn (handle lost_env (json_request Login) alice_db) = ConnClosed"
  by (simp add: handler_defs store_defs response_defs lost_env_def json_request_def alice_db_def
        alice_def)

text \<open>
  C5: \<^verbatim>\<open>register\<close> answers every \<^verbatim>\<open>mysql.connector.Error\<close> with 400 "Username already
  exists". Registering a fresh name while the statement fails for another reason gives 400,
  not 500.
\<close>

theorem register_reports_any_fault_as_duplicate:
  "result (register lost_env ((json_request Register)\<lparr>username := Some ''bob'', password := Some ''pw2''\<rparr>) alice_db)
     = Inr \<lparr>payload = error_body ''Username already exists'', code = 400\<rparr>
   \<and> \<not> list_ex (\<lambda>r. sql_eq (u_username r) (Some ''bob'')) (users alice_db)"
  by (simp add: handler_defs store_defs response_defs lost_env_def json_request_def alice_db_def
        alice_def)

end
